theory Spec2Isabelle
  imports Main "HOL-Library.Multiset"
begin

section \<open>Python values, exceptions and dictionaries\<close>

text \<open>
  The exception classes that occur in \<^verbatim>\<open>libratom/lib/entities.py\<close> and in the
  calls it makes. \<open>is_Exception c\<close> says that \<open>c\<close> is a subclass of Python's
  \<^verbatim>\<open>Exception\<close>: \<^verbatim>\<open>KeyboardInterrupt\<close>, \<^verbatim>\<open>SystemExit\<close> and
  \<^verbatim>\<open>GeneratorExit\<close> derive from \<^verbatim>\<open>BaseException\<close> only, so that
  \<^verbatim>\<open>except Exception\<close> does not catch them.
\<close>

datatype exc_class =
    KeyboardInterrupt | SystemExit | GeneratorExit
  | KeyError | TypeError | ZeroDivisionError | ValueError | MemoryError
  | NoResultFound | MultipleResultsFound | SQLAlchemyError

fun is_Exception :: "exc_class \<Rightarrow> bool" where
  "is_Exception KeyboardInterrupt = False"
| "is_Exception SystemExit = False"
| "is_Exception GeneratorExit = False"
| "is_Exception _ = True"

text \<open>An exception instance: its class and the text \<^verbatim>\<open>str(exc)\<close> gives.\<close>

datatype py_exc = PyExc (exc_class: exc_class) (exc_str: string)

text \<open>
  \<^verbatim>\<open>AttachmentMetadata\<close> is a named tuple of \<^verbatim>\<open>libratom.lib.base\<close>; the code only
  passes it on and calls \<^verbatim>\<open>_asdict()\<close> on it, so it is kept as the association
  list of its fields.
\<close>

datatype atom = AStr string | AInt int

type_synonym AttachmentMetadata = "(string \<times> atom) list"

text \<open>The values that the job function stores in its result dictionary.\<close>

datatype pyval =
    PStr string
  | PInt int
  | PTime nat
  | PAttachments "AttachmentMetadata list"
  | PEntities "(string \<times> string) list"

text \<open>
  A Python \<^verbatim>\<open>dict\<close> with string keys, in insertion order. \<open>dict_set\<close> is
  \<^verbatim>\<open>d[k] = v\<close>, \<open>dict_pop\<close> is \<^verbatim>\<open>d.pop(k)\<close>, which raises
  \<^verbatim>\<open>KeyError\<close> on a missing key.
\<close>

type_synonym pydict = "(string \<times> pyval) list"

fun dict_set :: "pydict \<Rightarrow> string \<Rightarrow> pyval \<Rightarrow> pydict" where
  "dict_set [] k v = [(k, v)]"
| "dict_set ((k', v') # d) k v =
     (if k' = k then (k, v) # d else (k', v') # dict_set d k v)"

definition dict_del :: "pydict \<Rightarrow> string \<Rightarrow> pydict" where
  "dict_del d k = filter (\<lambda>kv. fst kv \<noteq> k) d"

definition dict_pop :: "pydict \<Rightarrow> string \<Rightarrow> py_exc + (pyval \<times> pydict)" where
  "dict_pop d k =
     (case map_of d k of
        None \<Rightarrow> Inl (PyExc KeyError k)
      | Some v \<Rightarrow> Inr (v, dict_del d k))"

definition dict_keys :: "pydict \<Rightarrow> string set" where
  "dict_keys d = fst ` set d"

text \<open>Truth value of the \<^verbatim>\<open>Optional[str]\<close> error slot in \<^verbatim>\<open>if error:\<close>.\<close>

fun truthy :: "string option \<Rightarrow> bool" where
  "truthy None = False"
| "truthy (Some s) = (s \<noteq> [])"

section \<open>The job function\<close>

text \<open>
  The analysis capability \<^verbatim>\<open>spacy_model\<close>: called on the message text it either
  raises or returns a document, of which the code reads the \<^verbatim>\<open>(ent.text, ent.label_)\<close>
  pairs of \<^verbatim>\<open>doc.ents\<close>.
\<close>

type_synonym Language = "string \<Rightarrow> py_exc + (string \<times> string) list"

text \<open>
  \<^verbatim>\<open>process_message\<close>, lines 58 to 88. The two readings of
  \<^verbatim>\<open>datetime.utcnow()\<close> are the parameters \<open>t_start\<close> and \<open>t_end\<close>. The result is
  \<open>Inr (res, error)\<close> when the function returns and \<open>Inl exc\<close> when \<open>exc\<close> leaves it:
  the handler is \<^verbatim>\<open>except Exception\<close>.
\<close>

definition process_message ::
  "string \<Rightarrow> int \<Rightarrow> string \<Rightarrow> AttachmentMetadata list \<Rightarrow> Language \<Rightarrow> nat \<Rightarrow> nat
     \<Rightarrow> py_exc + (pydict \<times> string option)" where
  "process_message filepath message_id message attachments spacy_model t_start t_end =
     (let res = [(''filepath'', PStr filepath),
                 (''message_id'', PInt message_id),
                 (''processing_start_time'', PTime t_start),
                 (''attachments'', PAttachments attachments)]
      in case spacy_model message of
           Inr ents \<Rightarrow>
             Inr (dict_set (dict_set res ''entities'' (PEntities ents))
                    ''processing_end_time'' (PTime t_end), None)
         | Inl exc \<Rightarrow>
             if is_Exception (exc_class exc) then Inr (res, Some (exc_str exc))
             else Inl exc)"

section \<open>The relational records and the session\<close>

text \<open>
  The classes of \<^verbatim>\<open>libratom.models\<close> as the controller fills them. A
  \<open>Message\<close> keeps the keyword arguments \<^verbatim>\<open>**res\<close> it was built from (the
  processing times) beside its identifier and its link.
\<close>

record FileReport =
  fr_id :: nat
  path :: string

record Message =
  pff_identifier :: pyval
  msg_kwargs :: pydict
  file_report :: "FileReport option"

record Attachment =
  att_kwargs :: AttachmentMetadata
  att_message :: Message
  att_file_report :: "FileReport option"

record Entity =
  ent_text :: string
  ent_label :: string
  ent_filepath :: pyval
  ent_message :: Message
  ent_file_report :: "FileReport option"

datatype row = MessageRow Message | AttachmentRow Attachment | EntityRow Entity

fun is_EntityRow :: "row \<Rightarrow> bool" where
  "is_EntityRow (EntityRow e) = True"
| "is_EntityRow _ = False"

definition entity_rows :: "row list \<Rightarrow> nat" where
  "entity_rows rs = length (filter is_EntityRow rs)"

text \<open>
  The session: the \<^verbatim>\<open>file_report\<close> table (read only here), the rows added since
  the last commit or rollback, the committed rows, and counters of the calls made.
\<close>

record Session =
  file_reports :: "FileReport list"
  pending :: "row list"
  store :: "row list"
  commit_attempts :: nat
  commits :: nat
  rollbacks :: nat

text \<open>
  What the store does is outside the program: \<open>commit_error n\<close> is the message of the
  error that the \<open>n\<close>-th call of \<^verbatim>\<open>commit()\<close> raises, if it raises, and
  \<open>query_error p\<close> that of a query for the path \<open>p\<close>. Both are errors of SQLAlchemy,
  subclasses of \<^verbatim>\<open>Exception\<close>.
\<close>

record faults =
  commit_error :: "nat \<Rightarrow> string option"
  query_error :: "pyval \<Rightarrow> string option"

definition session_add :: "Session \<Rightarrow> row \<Rightarrow> Session" where
  "session_add s r = s\<lparr>pending := pending s @ [r]\<rparr>"

definition session_add_all :: "Session \<Rightarrow> row list \<Rightarrow> Session" where
  "session_add_all s rs = s\<lparr>pending := pending s @ rs\<rparr>"

definition session_commit :: "faults \<Rightarrow> Session \<Rightarrow> (py_exc \<times> Session) + Session" where
  "session_commit db s =
     (case commit_error db (commit_attempts s) of
        Some m \<Rightarrow> Inl (PyExc SQLAlchemyError m, s\<lparr>commit_attempts := Suc (commit_attempts s)\<rparr>)
      | None \<Rightarrow>
          Inr (s\<lparr>store := store s @ pending s, pending := [],
                 commit_attempts := Suc (commit_attempts s), commits := Suc (commits s)\<rparr>))"

definition session_rollback :: "Session \<Rightarrow> Session" where
  "session_rollback s = s\<lparr>pending := [], rollbacks := Suc (rollbacks s)\<rparr>"

text \<open>\<^verbatim>\<open>session.query(FileReport).filter_by(path=filepath).one()\<close>\<close>

definition query_one :: "faults \<Rightarrow> Session \<Rightarrow> pyval \<Rightarrow> py_exc + FileReport" where
  "query_one db s filepath =
     (case query_error db filepath of
        Some m \<Rightarrow> Inl (PyExc SQLAlchemyError m)
      | None \<Rightarrow>
          (case filter (\<lambda>fr. PStr (path fr) = filepath) (file_reports s) of
             [] \<Rightarrow> Inl (PyExc NoResultFound ''No row was found for one()'')
           | [fr] \<Rightarrow> Inr fr
           | _ \<Rightarrow> Inl (PyExc MultipleResultsFound ''Multiple rows were found for one()'')))"

section \<open>The controller\<close>

record config =
  RATOM_DB_COMMIT_BATCH_SIZE :: int
  MSG_PROGRESS_STEP :: int

datatype log_entry =
    Info_skipping pyval pyval
  | Debug_skipped pyval pyval string
  | Info_unable_to_link pyval py_exc
  | Exception_logged py_exc
  | Warning_cancelling
  | Info_partial_results
  | Info_terminating_workers

text \<open>
  The local variables of \<^verbatim>\<open>extract_entities\<close> and what it does to the outside:
  the arguments given to the progress callback, in order, the log, and the pool.
\<close>

record state =
  session :: Session
  new_entities :: "Entity list"
  msg_count :: int
  progress :: "int list"
  logged :: "log_entry list"
  pool_terminated :: bool
  pool_joined :: bool

text \<open>
  What the controller gets from \<^verbatim>\<open>pool.imap_unordered\<close>: the next outcome of the
  job function, in completion order, or a \<^verbatim>\<open>KeyboardInterrupt\<close> while it waits
  for one (the workers ignore the signal, so only the controller sees it).
\<close>

datatype event = Outcome "pydict \<times> string option" | Interrupt

text \<open>Lines 189 to 201: the two log lines for an outcome with an error.\<close>

definition log_skip :: "state \<Rightarrow> pydict \<Rightarrow> string \<Rightarrow> py_exc + state" where
  "log_skip st res error =
     (case map_of res ''message_id'' of
        None \<Rightarrow> Inl (PyExc KeyError ''message_id'')
      | Some message_id \<Rightarrow>
     (case map_of res ''filepath'' of
        None \<Rightarrow> Inl (PyExc KeyError ''filepath'')
      | Some filepath \<Rightarrow>
          if map_of res ''error'' \<noteq> None
          then Inl (PyExc TypeError ''format() got multiple values for keyword argument'')
          else Inr (st\<lparr>logged := logged st @
                   [Info_skipping message_id filepath,
                    Debug_skipped filepath message_id error]\<rparr>)))"

text \<open>Lines 204 to 207: the four \<^verbatim>\<open>pop\<close> calls, in the order of the source.\<close>

definition extract_results ::
  "pydict \<Rightarrow> py_exc + (pyval \<times> pyval \<times> pyval \<times> pyval \<times> pydict)" where
  "extract_results res =
     (case dict_pop res ''entities'' of Inl e \<Rightarrow> Inl e | Inr (entities, res1) \<Rightarrow>
     (case dict_pop res1 ''message_id'' of Inl e \<Rightarrow> Inl e | Inr (message_id, res2) \<Rightarrow>
     (case dict_pop res2 ''filepath'' of Inl e \<Rightarrow> Inl e | Inr (filepath, res3) \<Rightarrow>
     (case dict_pop res3 ''attachments'' of Inl e \<Rightarrow> Inl e | Inr (attachments, res4) \<Rightarrow>
        Inr (entities, message_id, filepath, attachments, res4)))))"

text \<open>Lines 212 to 221: the link to a file report, and the log line when there is none.\<close>

definition link_file_report ::
  "faults \<Rightarrow> Session \<Rightarrow> pyval \<Rightarrow> pyval \<Rightarrow> FileReport option \<times> log_entry list" where
  "link_file_report db s message_id filepath =
     (case query_one db s filepath of
        Inr fr \<Rightarrow> (Some fr, [])
      | Inl exc \<Rightarrow> (None, [Info_unable_to_link message_id exc]))"

definition new_message :: "faults \<Rightarrow> Session \<Rightarrow> pyval \<Rightarrow> pyval \<Rightarrow> pydict \<Rightarrow> Message" where
  "new_message db s message_id filepath res =
     \<lparr>pff_identifier = message_id, msg_kwargs = res,
      file_report = fst (link_file_report db s message_id filepath)\<rparr>"

definition new_attachment :: "Message \<Rightarrow> AttachmentMetadata \<Rightarrow> Attachment" where
  "new_attachment message attachment =
     \<lparr>att_kwargs = attachment, att_message = message,
      att_file_report = file_report message\<rparr>"

definition new_entity :: "Message \<Rightarrow> pyval \<Rightarrow> string \<times> string \<Rightarrow> Entity" where
  "new_entity message filepath entity =
     \<lparr>ent_text = fst entity, ent_label = snd entity, ent_filepath = filepath,
      ent_message = message, ent_file_report = file_report message\<rparr>"

text \<open>
  Lines 209 to 248: the message is built and added, its attachments are added, its
  entities are appended to the buffer.
\<close>

definition stage_message ::
  "faults \<Rightarrow> state \<Rightarrow> pyval \<times> pyval \<times> pyval \<times> pyval \<times> pydict \<Rightarrow> py_exc + state" where
  "stage_message db st u =
     (case u of (entities, message_id, filepath, attachments, res) \<Rightarrow>
        if map_of res ''pff_identifier'' \<noteq> None
        then Inl (PyExc TypeError ''got multiple values for keyword argument'')
        else
          let message = new_message db (session st) message_id filepath res;
              st1 = st\<lparr>logged := logged st @
                          snd (link_file_report db (session st) message_id filepath),
                       session := session_add (session st) (MessageRow message)\<rparr>
          in (case attachments of
                PAttachments atts \<Rightarrow>
                  let st2 = st1\<lparr>session := session_add_all (session st1)
                                   (map (\<lambda>a. AttachmentRow (new_attachment message a)) atts)\<rparr>
                  in (case entities of
                        PEntities ents \<Rightarrow>
                          Inr (st2\<lparr>new_entities := new_entities st2 @
                                      map (new_entity message filepath) ents\<rparr>)
                      | _ \<Rightarrow> Inl (PyExc TypeError ''entities''))
              | _ \<Rightarrow> Inl (PyExc TypeError ''attachments'')))"

text \<open>Lines 250 to 258: the commit when the buffer has reached the threshold.\<close>

definition commit_batch :: "config \<Rightarrow> faults \<Rightarrow> state \<Rightarrow> state" where
  "commit_batch cfg db st =
     (if int (length (new_entities st)) \<ge> RATOM_DB_COMMIT_BATCH_SIZE cfg
      then
        let s1 = session_add_all (session st) (map EntityRow (new_entities st));
            st1 = st\<lparr>session := s1, new_entities := []\<rparr>
        in (case session_commit db s1 of
              Inr s2 \<Rightarrow> st1\<lparr>session := s2\<rparr>
            | Inl (exc, s2) \<Rightarrow>
                st1\<lparr>logged := logged st1 @ [Exception_logged exc],
                    session := session_rollback s2\<rparr>)
      else st)"

text \<open>
  Lines 260 to 262. \<^verbatim>\<open>msg_count % MSG_PROGRESS_STEP\<close> raises
  \<^verbatim>\<open>ZeroDivisionError\<close> when the step is 0; otherwise it is \<open>mod\<close> on \<open>int\<close>
  (the sign of the divisor, in Python as in HOL).
\<close>

definition py_mod :: "int \<Rightarrow> int \<Rightarrow> py_exc + int" where
  "py_mod a b =
     (if b = 0 then Inl (PyExc ZeroDivisionError ''integer division or modulo by zero'')
      else Inr (a mod b))"

definition update_progress :: "state \<Rightarrow> int \<Rightarrow> state" where
  "update_progress st n = st\<lparr>progress := progress st @ [n]\<rparr>"

definition progress_tick :: "config \<Rightarrow> state \<Rightarrow> py_exc + state" where
  "progress_tick cfg st =
     (case py_mod (msg_count st) (MSG_PROGRESS_STEP cfg) of
        Inl e \<Rightarrow> Inl e
      | Inr r \<Rightarrow> Inr (if r = 0 then update_progress st (MSG_PROGRESS_STEP cfg) else st))"

text \<open>
  One turn of the loop of lines 177 to 262. \<^verbatim>\<open>enumerate(..., start=1)\<close> sets
  \<open>msg_count\<close> to the number of outcomes received so far. The \<^verbatim>\<open>continue\<close> of
  line 201 ends the turn for an outcome with an error. \<open>Inl exc\<close> is an exception
  that leaves the turn, and with it the function.
\<close>

definition step :: "config \<Rightarrow> faults \<Rightarrow> state \<Rightarrow> pydict \<times> string option \<Rightarrow> py_exc + state" where
  "step cfg db st worker_output =
     (case worker_output of (res, error) \<Rightarrow>
        let st1 = st\<lparr>msg_count := msg_count st + 1\<rparr> in
        if truthy error
        then log_skip st1 res (case error of Some e \<Rightarrow> e | None \<Rightarrow> [])
        else
          (case extract_results res of
             Inl e \<Rightarrow> Inl e
           | Inr u \<Rightarrow>
               (case stage_message db st1 u of
                  Inl e \<Rightarrow> Inl e
                | Inr st2 \<Rightarrow> progress_tick cfg (commit_batch cfg db st2))))"

datatype loop_exit = Exhausted | Interrupted | Failed py_exc

fun loop :: "config \<Rightarrow> faults \<Rightarrow> state \<Rightarrow> event list \<Rightarrow> state \<times> loop_exit" where
  "loop cfg db st [] = (st, Exhausted)"
| "loop cfg db st (Interrupt # evs) = (st, Interrupted)"
| "loop cfg db st (Outcome worker_output # evs) =
     (case step cfg db st worker_output of
        Inl e \<Rightarrow> (st, Failed e)
      | Inr st' \<Rightarrow> loop cfg db st' evs)"

datatype result = Returned int | Raised py_exc

definition init_state :: "Session \<Rightarrow> state" where
  "init_state s =
     \<lparr>session = s, new_entities = [], msg_count = 0, progress = [], logged = [],
      pool_terminated = False, pool_joined = False\<rparr>"

text \<open>
  Lines 264 to 268, after the loop: the remaining entities are added to the session and
  the callback gets the remainder. Leaving the \<^verbatim>\<open>with\<close> block terminates the pool.
\<close>

definition finish :: "config \<Rightarrow> state \<Rightarrow> state \<times> result" where
  "finish cfg st =
     (let st1 = st\<lparr>session := session_add_all (session st) (map EntityRow (new_entities st))\<rparr>
      in case py_mod (msg_count st1) (MSG_PROGRESS_STEP cfg) of
           Inl e \<Rightarrow> (st1\<lparr>pool_terminated := True\<rparr>, Raised e)
         | Inr r \<Rightarrow> ((update_progress st1 r)\<lparr>pool_terminated := True\<rparr>, Returned 0))"

text \<open>Lines 270 to 279: the handler of \<^verbatim>\<open>KeyboardInterrupt\<close>.\<close>

definition cancel :: "state \<Rightarrow> state \<times> result" where
  "cancel st =
     (st\<lparr>logged := logged st @
            [Warning_cancelling, Info_partial_results, Info_terminating_workers],
         pool_terminated := True, pool_joined := True\<rparr>, Returned 1)"

text \<open>
  \<^verbatim>\<open>extract_entities\<close>, lines 142 to 281, on the stream of events that the pool
  gives for the files (\<^verbatim>\<open>get_messages\<close> and the pool are not part of the file).
  An exception other than \<^verbatim>\<open>KeyboardInterrupt\<close> leaves the function through the
  \<^verbatim>\<open>with\<close> block, which terminates the pool. The progress callback is the
  recording of its argument. Left out: the debug lines of the settings and of the pool
  size, and the query of line 165, whose result is not used.
\<close>

definition extract_entities ::
  "config \<Rightarrow> faults \<Rightarrow> Session \<Rightarrow> event list \<Rightarrow> state \<times> result" where
  "extract_entities cfg db s events =
     (case loop cfg db (init_state s) events of
        (st, Exhausted) \<Rightarrow> finish cfg st
      | (st, Interrupted) \<Rightarrow> cancel st
      | (st, Failed e) \<Rightarrow> (st\<lparr>pool_terminated := True\<rparr>, Raised e))"

section \<open>Test doubles and measures used by the statements\<close>

text \<open>An analysis capability that raises \<open>exc\<close> on every text, and one that finds \<open>ents\<close>.\<close>

definition raising :: "py_exc \<Rightarrow> Language" where
  "raising exc message = Inl exc"

definition finding :: "(string \<times> string) list \<Rightarrow> Language" where
  "finding ents message = Inr ents"

text \<open>The defaults of lines 30 and 33.\<close>

definition default_config :: config where
  "default_config = \<lparr>RATOM_DB_COMMIT_BATCH_SIZE = 10000, MSG_PROGRESS_STEP = 10\<rparr>"

text \<open>A store that never fails, and a session with nothing added or committed yet.\<close>

definition no_faults :: faults where
  "no_faults = \<lparr>commit_error = (\<lambda>n. None), query_error = (\<lambda>p. None)\<rparr>"

text \<open>A store whose \<open>k\<close>-th commit (counted from 0) fails with the text \<open>m\<close>.\<close>

definition commit_fails_at :: "nat \<Rightarrow> string \<Rightarrow> faults" where
  "commit_fails_at k m =
     \<lparr>commit_error = (\<lambda>n. if n = k then Some m else None), query_error = (\<lambda>p. None)\<rparr>"

text \<open>A store whose queries for the path \<open>p\<close> fail with the text \<open>m\<close>.\<close>

definition query_fails_for :: "pyval \<Rightarrow> string \<Rightarrow> faults" where
  "query_fails_for p m =
     \<lparr>commit_error = (\<lambda>n. None), query_error = (\<lambda>q. if q = p then Some m else None)\<rparr>"

definition new_session :: "FileReport list \<Rightarrow> Session" where
  "new_session table =
     \<lparr>file_reports = table, pending = [], store = [], commit_attempts = 0, commits = 0,
      rollbacks = 0\<rparr>"

text \<open>
  Two outcomes as the job function returns them for a message of \<^verbatim>\<open>a.pst\<close> without
  attachments: one for an analysis that found \<open>ents\<close>, one for an analysis that raised
  an \<^verbatim>\<open>Exception\<close> with the text \<open>msg\<close>.
\<close>

definition success_outcome :: "int \<Rightarrow> (string \<times> string) list \<Rightarrow> pydict \<times> string option" where
  "success_outcome message_id ents =
     ([(''filepath'', PStr ''a.pst''), (''message_id'', PInt message_id),
       (''processing_start_time'', PTime 0), (''attachments'', PAttachments []),
       (''entities'', PEntities ents), (''processing_end_time'', PTime 1)], None)"

definition error_outcome :: "int \<Rightarrow> string \<Rightarrow> pydict \<times> string option" where
  "error_outcome message_id msg =
     ([(''filepath'', PStr ''a.pst''), (''message_id'', PInt message_id),
       (''processing_start_time'', PTime 0), (''attachments'', PAttachments [])], Some msg)"

definition no_commit_error :: "faults \<Rightarrow> bool" where
  "no_commit_error db = (\<forall>n. commit_error db n = None)"

text \<open>
  The \<^verbatim>\<open>(span text, label)\<close> pairs of an outcome that the controller takes as a
  success, and their number over a stream.
\<close>

definition outcome_entities :: "pydict \<times> string option \<Rightarrow> (string \<times> string) list" where
  "outcome_entities worker_output =
     (case worker_output of (res, error) \<Rightarrow>
        if truthy error then []
        else (case map_of res ''entities'' of Some (PEntities ents) \<Rightarrow> ents | _ \<Rightarrow> []))"

fun produced_entities :: "event list \<Rightarrow> nat" where
  "produced_entities [] = 0"
| "produced_entities (Outcome worker_output # evs) =
     length (outcome_entities worker_output) + produced_entities evs"
| "produced_entities (Interrupt # evs) = produced_entities evs"

text \<open>The entities that a state holds: committed, added to the session, or buffered.\<close>

definition held_entities :: "state \<Rightarrow> nat" where
  "held_entities st =
     entity_rows (store (session st)) + entity_rows (pending (session st)) +
     length (new_entities st)"

text \<open>
  The rows that the controller builds for an outcome it takes as a success (the message,
  its attachments, its entities), and those of a stream.
\<close>

definition outcome_rows :: "faults \<Rightarrow> Session \<Rightarrow> pydict \<times> string option \<Rightarrow> row list" where
  "outcome_rows db s worker_output =
     (case worker_output of (res, error) \<Rightarrow>
        if truthy error then []
        else
          (case extract_results res of
             Inr (PEntities ents, message_id, filepath, PAttachments atts, res') \<Rightarrow>
               (if map_of res' ''pff_identifier'' \<noteq> None then []
                else
                  MessageRow (new_message db s message_id filepath res') #
                  map (\<lambda>a. AttachmentRow
                        (new_attachment (new_message db s message_id filepath res') a)) atts @
                  map (\<lambda>e. EntityRow
                        (new_entity (new_message db s message_id filepath res') filepath e)) ents)
           | _ \<Rightarrow> []))"

fun run_rows :: "faults \<Rightarrow> Session \<Rightarrow> event list \<Rightarrow> row list" where
  "run_rows db s [] = []"
| "run_rows db s (Outcome worker_output # evs) = outcome_rows db s worker_output @ run_rows db s evs"
| "run_rows db s (Interrupt # evs) = run_rows db s evs"

text \<open>The rows that a state holds: committed, added to the session, or buffered.\<close>

definition held_rows :: "state \<Rightarrow> row multiset" where
  "held_rows st =
     mset (store (session st)) + mset (pending (session st)) +
     mset (map EntityRow (new_entities st))"

section \<open>Evaluation on concrete runs\<close>

lemmas run_defs =
  extract_entities_def init_state_def step_def log_skip_def extract_results_def dict_pop_def
  dict_del_def stage_message_def new_message_def link_file_report_def query_one_def
  new_attachment_def new_entity_def commit_batch_def session_add_def session_add_all_def
  session_commit_def session_rollback_def progress_tick_def py_mod_def update_progress_def
  finish_def cancel_def Let_def

lemma success_outcome_returned:
  "process_message ''a.pst'' message_id message [] (finding ents) 0 1
     = Inr (success_outcome message_id ents)"
  by (simp add: process_message_def finding_def success_outcome_def)

lemma error_outcome_returned:
  "process_message ''a.pst'' message_id message [] (raising (PyExc ValueError msg)) 0 1
     = Inr (error_outcome message_id msg)"
  by (simp add: process_message_def raising_def error_outcome_def)

lemma extract_results_success_outcome:
  "extract_results (fst (success_outcome message_id ents))
     = Inr (PEntities ents, PInt message_id, PStr ''a.pst'', PAttachments [],
            [(''processing_start_time'', PTime 0), (''processing_end_time'', PTime 1)])"
  by (simp add: success_outcome_def extract_results_def dict_pop_def dict_del_def)

text \<open>
  An exception without text leaves the error slot falsy: the controller takes the outcome
  for a success and \<^verbatim>\<open>res.pop("entities")\<close> raises.
\<close>

lemma empty_error_text_taken_for_success:
  "snd (extract_entities default_config no_faults (new_session []) [Outcome (error_outcome 1 [])])
     = Raised (PyExc KeyError ''entities'')"
  by (simp add: run_defs error_outcome_def)

section \<open>The job function: what it returns\<close>

lemma dict_keys_simps [simp]:
  "dict_keys [] = {}" "dict_keys ((k, v) # d) = insert k (dict_keys d)"
  by (auto simp: dict_keys_def)

lemma dict_keys_set: "dict_keys (dict_set d k v) = insert k (dict_keys d)"
  by (induction d k v rule: dict_set.induct) auto

text \<open>
  C2, as the claim states it, fails on the code: an exception whose \<^verbatim>\<open>str()\<close> is
  empty (a bare \<^verbatim>\<open>MemoryError()\<close>) gives the empty string in the error slot, and
  an exception that is not an \<^verbatim>\<open>Exception\<close> (here \<^verbatim>\<open>SystemExit\<close>) leaves
  the function.
\<close>

theorem process_message_error_slot_counterexample:
  "process_message ''a.pst'' 1 ''hi'' [] (raising (PyExc MemoryError [])) 0 1
     = Inr ([(''filepath'', PStr ''a.pst''), (''message_id'', PInt 1),
             (''processing_start_time'', PTime 0), (''attachments'', PAttachments [])],
            Some [])
   \<and> process_message ''a.pst'' 1 ''hi'' [] (raising (PyExc SystemExit ''1'')) 0 1
     = Inl (PyExc SystemExit ''1'')"
  by (simp add: process_message_def raising_def)

text \<open>
  C2, amended: for every job descriptor, \<^verbatim>\<open>process_message\<close> returns a
  (record, error) pair whenever the analysis returns or raises an exception derived from
  \<^verbatim>\<open>Exception\<close>; the error slot is \<^verbatim>\<open>None\<close> when the analysis returns, and
  it is the non-empty string \<^verbatim>\<open>str(exc)\<close> when the analysis raises an
  \<^verbatim>\<open>Exception\<close> whose text is not empty. An exception outside \<^verbatim>\<open>Exception\<close>
  propagates to the caller.
\<close>

theorem process_message_returns:
  "(\<forall>ents. spacy_model message = Inr ents \<longrightarrow>
      (\<exists>res. process_message filepath message_id message attachments spacy_model t_start t_end
               = Inr (res, None)))
   \<and> (\<forall>exc. spacy_model message = Inl exc \<longrightarrow> is_Exception (exc_class exc) \<longrightarrow>
      (\<exists>res error.
         process_message filepath message_id message attachments spacy_model t_start t_end
           = Inr (res, error)
         \<and> (exc_str exc \<noteq> [] \<longrightarrow> error = Some (exc_str exc) \<and> truthy error)))
   \<and> (\<forall>exc. spacy_model message = Inl exc \<longrightarrow> \<not> is_Exception (exc_class exc) \<longrightarrow>
         process_message filepath message_id message attachments spacy_model t_start t_end
           = Inl exc)"
  by (simp add: process_message_def)

text \<open>
  C2, at concrete inputs: an analysis that raises \<^verbatim>\<open>ValueError("boom")\<close>, one that
  finds an entity, one that raises \<^verbatim>\<open>KeyboardInterrupt\<close>.
\<close>

theorem process_message_returns_witness:
  "raising (PyExc ValueError ''boom'') ''hi'' = Inl (PyExc ValueError ''boom'')
   \<and> is_Exception ValueError
   \<and> (\<exists>res. process_message ''a.pst'' 1 ''hi'' [] (raising (PyExc ValueError ''boom'')) 0 1
               = Inr (res, Some ''boom''))
   \<and> truthy (Some ''boom'')
   \<and> finding [(''Bob'', ''PERSON'')] ''hi'' = Inr [(''Bob'', ''PERSON'')]
   \<and> (\<exists>res. process_message ''a.pst'' 1 ''hi'' [] (finding [(''Bob'', ''PERSON'')]) 0 1
               = Inr (res, None))
   \<and> raising (PyExc KeyboardInterrupt []) ''hi'' = Inl (PyExc KeyboardInterrupt [])
   \<and> process_message ''a.pst'' 1 ''hi'' [] (raising (PyExc KeyboardInterrupt [])) 0 1
        = Inl (PyExc KeyboardInterrupt [])"
proof -
  have a: "raising (PyExc ValueError ''boom'') ''hi'' = Inl (PyExc ValueError ''boom'')"
    and b: "finding [(''Bob'', ''PERSON'')] ''hi'' = Inr [(''Bob'', ''PERSON'')]"
    and c: "raising (PyExc KeyboardInterrupt []) ''hi'' = Inl (PyExc KeyboardInterrupt [])"
    by (simp_all add: raising_def finding_def)
  show ?thesis
    using process_message_returns
            [of "raising (PyExc ValueError ''boom'')" "''hi''" "''a.pst''" 1 "[]" 0 1]
          process_message_returns
            [of "finding [(''Bob'', ''PERSON'')]" "''hi''" "''a.pst''" 1 "[]" 0 1]
          process_message_returns
            [of "raising (PyExc KeyboardInterrupt [])" "''hi''" "''a.pst''" 1 "[]" 0 1]
    unfolding a b c by auto
qed

text \<open>
  C9: when \<^verbatim>\<open>process_message\<close> returns for a job whose analysis raised, the record
  has exactly the keys \<^verbatim>\<open>filepath\<close>, \<^verbatim>\<open>message_id\<close>,
  \<^verbatim>\<open>processing_start_time\<close> and \<^verbatim>\<open>attachments\<close>; these four are in every
  returned record, and each of \<^verbatim>\<open>entities\<close> and \<^verbatim>\<open>processing_end_time\<close> is
  a key of it exactly when the error slot is \<^verbatim>\<open>None\<close>.
\<close>

theorem process_message_keys:
  assumes "process_message filepath message_id message attachments spacy_model t_start t_end
             = Inr (res, error)"
  shows "(\<forall>exc. spacy_model message = Inl exc \<longrightarrow>
            dict_keys res =
              {''filepath'', ''message_id'', ''processing_start_time'', ''attachments''})
       \<and> {''filepath'', ''message_id'', ''processing_start_time'', ''attachments''}
            \<subseteq> dict_keys res
       \<and> ((''entities'' \<in> dict_keys res) = (error = None))
       \<and> ((''processing_end_time'' \<in> dict_keys res) = (error = None))"
  using assms
  by (auto simp: process_message_def Let_def dict_keys_set split: sum.splits if_splits)

text \<open>
  C9, at a concrete input: the record returned for an analysis that raises
  \<^verbatim>\<open>ValueError("boom")\<close>.
\<close>

theorem process_message_keys_witness:
  "process_message ''a.pst'' 7 ''hi'' [] (raising (PyExc ValueError ''boom'')) 3 4
     = Inr ([(''filepath'', PStr ''a.pst''), (''message_id'', PInt 7),
             (''processing_start_time'', PTime 3), (''attachments'', PAttachments [])],
            Some ''boom'')
   \<and> dict_keys [(''filepath'', PStr ''a.pst''), (''message_id'', PInt 7),
             (''processing_start_time'', PTime 3), (''attachments'', PAttachments [])]
       = {''filepath'', ''message_id'', ''processing_start_time'', ''attachments''}
   \<and> ''entities'' \<notin> dict_keys [(''filepath'', PStr ''a.pst''), (''message_id'', PInt 7),
             (''processing_start_time'', PTime 3), (''attachments'', PAttachments [])]
   \<and> ''processing_end_time'' \<notin> dict_keys [(''filepath'', PStr ''a.pst''),
             (''message_id'', PInt 7), (''processing_start_time'', PTime 3),
             (''attachments'', PAttachments [])]"
proof -
  have run: "process_message ''a.pst'' 7 ''hi'' [] (raising (PyExc ValueError ''boom'')) 3 4
     = Inr ([(''filepath'', PStr ''a.pst''), (''message_id'', PInt 7),
             (''processing_start_time'', PTime 3), (''attachments'', PAttachments [])],
            Some ''boom'')"
    by (simp add: process_message_def raising_def)
  have raised: "raising (PyExc ValueError ''boom'') ''hi'' = Inl (PyExc ValueError ''boom'')"
    by (simp add: raising_def)
  from process_message_keys [OF run] raised show ?thesis
    using run by simp
qed

section \<open>One turn of the loop\<close>

lemma dict_pop_Inr: "dict_pop d k = Inr (v, d') \<Longrightarrow> map_of d k = Some v \<and> d' = dict_del d k"
  by (auto simp: dict_pop_def split: option.splits)

lemma extract_results_entities:
  "extract_results res = Inr (entities, message_id, filepath, attachments, res') \<Longrightarrow>
     map_of res ''entities'' = Some entities"
  by (auto simp: extract_results_def dest: dict_pop_Inr split: sum.splits prod.splits)

lemma log_skip_Inr:
  "log_skip st res e = Inr st' \<Longrightarrow>
     session st' = session st \<and> new_entities st' = new_entities st \<and>
     progress st' = progress st \<and> msg_count st' = msg_count st"
  by (auto simp: log_skip_def split: option.splits if_splits)

lemma stage_message_Inr:
  assumes "stage_message db st (entities, message_id, filepath, attachments, res) = Inr st'"
  obtains ents atts where
    "entities = PEntities ents" "attachments = PAttachments atts"
    "st' = st\<lparr>logged := logged st @ snd (link_file_report db (session st) message_id filepath),
              session := session_add_all (session st)
                 (MessageRow (new_message db (session st) message_id filepath res) #
                  map (\<lambda>a. AttachmentRow
                        (new_attachment (new_message db (session st) message_id filepath res) a)) atts),
              new_entities := new_entities st @
                 map (new_entity (new_message db (session st) message_id filepath res) filepath) ents\<rparr>"
  using assms
  by (auto simp: stage_message_def Let_def session_add_def session_add_all_def
           split: if_splits pyval.splits)

lemma step_cases:
  assumes "step cfg db st (res, error) = Inr st'"
  obtains (skip) "truthy error"
      "log_skip (st\<lparr>msg_count := msg_count st + 1\<rparr>) res (case error of Some e \<Rightarrow> e | None \<Rightarrow> []) = Inr st'"
  | (ok) u st2 where "\<not> truthy error" "extract_results res = Inr u"
      "stage_message db (st\<lparr>msg_count := msg_count st + 1\<rparr>) u = Inr st2"
      "progress_tick cfg (commit_batch cfg db st2) = Inr st'"
  using assms
  by (auto simp: step_def Let_def split: if_splits sum.splits)

lemma step_success:
  assumes "\<not> truthy error"
      and "extract_results res
             = Inr (PEntities ents, message_id, filepath, PAttachments atts, res')"
      and "map_of res' ''pff_identifier'' = None"
  shows "step cfg db st (res, error) =
     progress_tick cfg (commit_batch cfg db
       (st\<lparr>msg_count := msg_count st + 1,
           logged := logged st @ snd (link_file_report db (session st) message_id filepath),
           session := session_add_all (session st)
              (MessageRow (new_message db (session st) message_id filepath res') #
               map (\<lambda>a. AttachmentRow
                     (new_attachment (new_message db (session st) message_id filepath res') a))
                   atts),
           new_entities := new_entities st @
              map (new_entity (new_message db (session st) message_id filepath res') filepath)
                  ents\<rparr>))"
  using assms
  by (simp add: step_def stage_message_def Let_def session_add_def session_add_all_def)

lemma commit_batch_ok:
  assumes "commit_error db (commit_attempts (session st)) = None"
  shows "commit_batch cfg db st =
     (if RATOM_DB_COMMIT_BATCH_SIZE cfg \<le> int (length (new_entities st))
      then st\<lparr>session := (session st)\<lparr>
                  store := store (session st) @ pending (session st) @ map EntityRow (new_entities st),
                  pending := [],
                  commit_attempts := Suc (commit_attempts (session st)),
                  commits := Suc (commits (session st))\<rparr>,
              new_entities := []\<rparr>
      else st)"
  using assms
  by (simp add: commit_batch_def Let_def session_commit_def session_add_all_def)

lemma progress_tick_Inr:
  assumes "progress_tick cfg st = Inr st'"
  shows "session st' = session st \<and> new_entities st' = new_entities st \<and>
         msg_count st' = msg_count st \<and> logged st' = logged st \<and>
         MSG_PROGRESS_STEP cfg \<noteq> 0 \<and>
         progress st' = progress st @
           (if msg_count st mod MSG_PROGRESS_STEP cfg = 0 then [MSG_PROGRESS_STEP cfg] else [])"
  using assms
  by (auto simp: progress_tick_def py_mod_def update_progress_def split: if_splits)

lemma step_msg_count:
  assumes "step cfg db st worker_output = Inr st'"
  shows "msg_count st' = msg_count st + 1"
proof (cases worker_output)
  case (Pair res error)
  from assms [unfolded Pair] show ?thesis
  proof (cases rule: step_cases)
    case skip
    then show ?thesis using log_skip_Inr [OF skip(2)] by simp
  next
    case (ok u st2)
    obtain entities message_id filepath attachments res' where
      u: "u = (entities, message_id, filepath, attachments, res')"
      by (cases u) auto
    from ok(3) [unfolded u] have "msg_count st2 = msg_count st + 1"
      by (rule stage_message_Inr) simp
    moreover have "msg_count (commit_batch cfg db st2) = msg_count st2"
      by (simp add: commit_batch_def Let_def split: sum.splits prod.splits)
    ultimately show ?thesis using progress_tick_Inr [OF ok(4)] by simp
  qed
qed

lemma loop_msg_count:
  assumes "loop cfg db st events = (st', Exhausted)"
  shows "msg_count st' = msg_count st + int (length events)"
  using assms
proof (induction cfg db st events rule: loop.induct)
  case (3 cfg db st worker_output evs)
  from "3.prems" obtain st1 where
    st1: "step cfg db st worker_output = Inr st1" "loop cfg db st1 evs = (st', Exhausted)"
    by (auto split: sum.splits)
  show ?case
    using "3.IH" [OF st1] step_msg_count [OF st1(1)] by simp
qed simp_all


lemma extract_entities_Returned_0:
  assumes "extract_entities cfg db s events = (st, Returned 0)"
  obtains st0 where "loop cfg db (init_state s) events = (st0, Exhausted)"
    "finish cfg st0 = (st, Returned 0)"
proof -
  obtain st0 ex where l: "loop cfg db (init_state s) events = (st0, ex)"
    by (cases "loop cfg db (init_state s) events") auto
  show thesis
  proof (cases ex)
    case Exhausted
    with l assms that show ?thesis by (simp add: extract_entities_def)
  next
    case Interrupted
    with l assms show ?thesis by (simp add: extract_entities_def cancel_def)
  next
    case (Failed e)
    with l assms show ?thesis by (simp add: extract_entities_def)
  qed
qed

lemma finish_Returned:
  assumes "finish cfg st0 = (st, Returned r)"
  shows "r = 0 \<and> MSG_PROGRESS_STEP cfg \<noteq> 0 \<and>
         st = st0\<lparr>session := session_add_all (session st0) (map EntityRow (new_entities st0)),
                  progress := progress st0 @ [msg_count st0 mod MSG_PROGRESS_STEP cfg],
                  pool_terminated := True\<rparr>"
  using assms
  by (auto simp: finish_def Let_def py_mod_def update_progress_def split: if_splits)

lemma query_one_cases:
  "query_one db s filepath =
     (case query_error db filepath of
        Some m \<Rightarrow> Inl (PyExc SQLAlchemyError m)
      | None \<Rightarrow>
          (if length (filter (\<lambda>fr. PStr (path fr) = filepath) (file_reports s)) = 1
           then Inr (hd (filter (\<lambda>fr. PStr (path fr) = filepath) (file_reports s)))
           else if filter (\<lambda>fr. PStr (path fr) = filepath) (file_reports s) = []
           then Inl (PyExc NoResultFound ''No row was found for one()'')
           else Inl (PyExc MultipleResultsFound ''Multiple rows were found for one()'')))"
  by (auto simp: query_one_def split: option.splits list.splits)

section \<open>Outcomes with an error\<close>

text \<open>
  C5: for an outcome whose error slot is truthy (and whose record has the keys that the
  log lines format), the turn of the loop returns: it writes the two log lines, leaves the
  session and the entity buffer as they were, so that no Message, Attachment or Entity is
  created, counts the outcome in \<open>msg_count\<close>, and the loop goes on with the next
  event.
\<close>

theorem error_outcome_skipped:
  assumes "truthy error"
      and "map_of res ''message_id'' = Some message_id"
      and "map_of res ''filepath'' = Some filepath"
      and "map_of res ''error'' = None"
  shows "\<exists>st'. step cfg db st (res, error) = Inr st'
           \<and> session st' = session st
           \<and> new_entities st' = new_entities st
           \<and> msg_count st' = msg_count st + 1
           \<and> logged st' = logged st @
                [Info_skipping message_id filepath,
                 Debug_skipped filepath message_id (the error)]
           \<and> loop cfg db st (Outcome (res, error) # evs) = loop cfg db st' evs"
proof -
  from assms(1) obtain e where e: "error = Some e" "e \<noteq> []"
    by (cases error) auto
  show ?thesis
    using assms(2-4) e by (simp add: step_def log_skip_def)
qed

text \<open>
  C5, at a concrete input: the outcome of a message whose analysis raised
  \<^verbatim>\<open>ValueError("boom")\<close>, in the initial state.
\<close>

theorem error_outcome_skipped_witness:
  "truthy (snd (error_outcome 2 ''boom''))
   \<and> map_of (fst (error_outcome 2 ''boom'')) ''message_id'' = Some (PInt 2)
   \<and> map_of (fst (error_outcome 2 ''boom'')) ''filepath'' = Some (PStr ''a.pst'')
   \<and> map_of (fst (error_outcome 2 ''boom'')) ''error'' = None
   \<and> (\<exists>st'. step default_config no_faults (init_state (new_session []))
                (error_outcome 2 ''boom'') = Inr st'
        \<and> session st' = new_session []
        \<and> new_entities st' = []
        \<and> msg_count st' = 1
        \<and> logged st' = [Info_skipping (PInt 2) (PStr ''a.pst''),
                         Debug_skipped (PStr ''a.pst'') (PInt 2) ''boom''])"
proof -
  have a: "truthy (snd (error_outcome 2 ''boom''))"
    and b: "map_of (fst (error_outcome 2 ''boom'')) ''message_id'' = Some (PInt 2)"
    and c: "map_of (fst (error_outcome 2 ''boom'')) ''filepath'' = Some (PStr ''a.pst'')"
    and d: "map_of (fst (error_outcome 2 ''boom'')) ''error'' = None"
    by (simp_all add: error_outcome_def)
  from error_outcome_skipped
         [OF a b c d, of default_config no_faults "init_state (new_session [])" "[]"]
  have "\<exists>st'. step default_config no_faults (init_state (new_session []))
                (error_outcome 2 ''boom'') = Inr st'
        \<and> session st' = new_session []
        \<and> new_entities st' = []
        \<and> msg_count st' = 1
        \<and> logged st' = [Info_skipping (PInt 2) (PStr ''a.pst''),
                         Debug_skipped (PStr ''a.pst'') (PInt 2) ''boom'']"
    by (auto simp: init_state_def error_outcome_def)
  with a b c d show ?thesis by blast
qed

section \<open>The link to a file report\<close>

text \<open>
  C8: for a successful outcome the controller stages a Message whose
  \<open>file_report\<close> is the FileReport found when the query does not fail and exactly one
  FileReport has the path of the outcome; when the query fails or the number of
  FileReports with that path is not one, the link is \<^verbatim>\<open>None\<close> and the log has
  the line for it. In both cases the turn returns and the loop goes on with the next
  event.
\<close>

theorem message_linked_to_file_report:
  assumes "\<not> truthy error"
      and "extract_results res
             = Inr (PEntities ents, message_id, filepath, PAttachments atts, res')"
      and "map_of res' ''pff_identifier'' = None"
      and "MSG_PROGRESS_STEP cfg \<noteq> 0"
  shows "\<exists>st2 st'.
           stage_message db (st\<lparr>msg_count := msg_count st + 1\<rparr>)
               (PEntities ents, message_id, filepath, PAttachments atts, res') = Inr st2
         \<and> MessageRow (new_message db (session st) message_id filepath res')
             \<in> set (pending (session st2))
         \<and> step cfg db st (res, error) = Inr st'
         \<and> loop cfg db st (Outcome (res, error) # evs) = loop cfg db st' evs
         \<and> (\<forall>fr. query_error db filepath = None \<and>
                  filter (\<lambda>r. PStr (path r) = filepath) (file_reports (session st)) = [fr] \<longrightarrow>
                file_report (new_message db (session st) message_id filepath res') = Some fr)
         \<and> (query_error db filepath \<noteq> None \<or>
            length (filter (\<lambda>r. PStr (path r) = filepath) (file_reports (session st))) \<noteq> 1 \<longrightarrow>
                file_report (new_message db (session st) message_id filepath res') = None
              \<and> (\<exists>exc. Info_unable_to_link message_id exc \<in> set (logged st2)
                       \<and> Info_unable_to_link message_id exc \<in> set (logged st')))"
proof -
  let ?m = "new_message db (session st) message_id filepath res'"
  let ?st2 = "st\<lparr>msg_count := msg_count st + 1,
           logged := logged st @ snd (link_file_report db (session st) message_id filepath),
           session := session_add_all (session st)
              (MessageRow ?m # map (\<lambda>a. AttachmentRow (new_attachment ?m a)) atts),
           new_entities := new_entities st @ map (new_entity ?m filepath) ents\<rparr>"
  have stage: "stage_message db (st\<lparr>msg_count := msg_count st + 1\<rparr>)
               (PEntities ents, message_id, filepath, PAttachments atts, res') = Inr ?st2"
    using assms(3)
    by (simp add: stage_message_def Let_def session_add_def session_add_all_def)
  have mem: "MessageRow ?m \<in> set (pending (session ?st2))"
    by (simp add: session_add_all_def)
  have step: "step cfg db st (res, error) = progress_tick cfg (commit_batch cfg db ?st2)"
    by (rule step_success [OF assms(1-3)])
  obtain st' where st': "progress_tick cfg (commit_batch cfg db ?st2) = Inr st'"
    using assms(4) by (simp add: progress_tick_def py_mod_def)
  have lg: "logged st' = logged (commit_batch cfg db ?st2)"
    using progress_tick_Inr [OF st'] by simp
  have sub: "set (logged ?st2) \<subseteq> set (logged (commit_batch cfg db ?st2))"
    by (auto simp: commit_batch_def Let_def split: sum.splits prod.splits)
  have one: "\<And>fr. query_error db filepath = None \<Longrightarrow>
        filter (\<lambda>r. PStr (path r) = filepath) (file_reports (session st)) = [fr] \<Longrightarrow>
        file_report ?m = Some fr"
    by (simp add: new_message_def link_file_report_def query_one_def)
  have none: "query_error db filepath \<noteq> None \<or>
        length (filter (\<lambda>r. PStr (path r) = filepath) (file_reports (session st))) \<noteq> 1 \<Longrightarrow>
        file_report ?m = None \<and>
        (\<exists>exc. Info_unable_to_link message_id exc \<in> set (logged ?st2))"
    by (auto simp: new_message_def link_file_report_def query_one_cases split: option.splits)
  show ?thesis
    using stage mem step st' lg sub one none
    by (intro exI [of _ ?st2] exI [of _ st']) (simp, blast)
qed

text \<open>
  C8, at concrete inputs: one FileReport with the path, none, and a query that fails.
\<close>

theorem message_linked_to_file_report_witness:
  "\<not> truthy (snd (success_outcome 1 []))
   \<and> extract_results (fst (success_outcome 1 []))
       = Inr (PEntities [], PInt 1, PStr ''a.pst'', PAttachments [],
              [(''processing_start_time'', PTime 0), (''processing_end_time'', PTime 1)])
   \<and> MSG_PROGRESS_STEP default_config \<noteq> 0
   \<and> file_report (new_message no_faults
         (new_session [\<lparr>fr_id = 1, path = ''a.pst''\<rparr>, \<lparr>fr_id = 2, path = ''b.mbox''\<rparr>])
         (PInt 1) (PStr ''a.pst'')
         [(''processing_start_time'', PTime 0), (''processing_end_time'', PTime 1)])
       = Some \<lparr>fr_id = 1, path = ''a.pst''\<rparr>
   \<and> file_report (new_message no_faults
         (new_session [\<lparr>fr_id = 2, path = ''b.mbox''\<rparr>])
         (PInt 1) (PStr ''a.pst'')
         [(''processing_start_time'', PTime 0), (''processing_end_time'', PTime 1)])
       = None
   \<and> file_report (new_message (query_fails_for (PStr ''a.pst'') ''database is locked'')
         (new_session [\<lparr>fr_id = 1, path = ''a.pst''\<rparr>])
         (PInt 1) (PStr ''a.pst'')
         [(''processing_start_time'', PTime 0), (''processing_end_time'', PTime 1)])
       = None"
proof -
  let ?kw = "[(''processing_start_time'', PTime 0), (''processing_end_time'', PTime 1)]"
  let ?t1 = "[\<lparr>fr_id = 1, path = ''a.pst''\<rparr>, \<lparr>fr_id = 2, path = ''b.mbox''\<rparr>]"
  let ?t2 = "[\<lparr>fr_id = 2, path = ''b.mbox''\<rparr>]"
  let ?t3 = "[\<lparr>fr_id = 1, path = ''a.pst''\<rparr>]"
  let ?bad = "query_fails_for (PStr ''a.pst'') ''database is locked''"
  have a: "\<not> truthy (snd (success_outcome 1 []))"
    by (simp add: success_outcome_def)
  have a': "success_outcome 1 [] = (fst (success_outcome 1 []), snd (success_outcome 1 []))"
    by simp
  have b: "extract_results (fst (success_outcome 1 []))
       = Inr (PEntities [], PInt 1, PStr ''a.pst'', PAttachments [], ?kw)"
    by (rule extract_results_success_outcome)
  have c: "map_of ?kw ''pff_identifier'' = None"
    by simp
  have d: "MSG_PROGRESS_STEP default_config \<noteq> 0"
    by (simp add: default_config_def)
  note link = message_linked_to_file_report [OF a b c d]
  have q1: "query_error no_faults (PStr ''a.pst'') = None"
    by (simp add: no_faults_def)
  have f1: "filter (\<lambda>r. PStr (path r) = PStr ''a.pst'')
              (file_reports (session (init_state (new_session ?t1))))
            = [\<lparr>fr_id = 1, path = ''a.pst''\<rparr>]"
    by (simp add: init_state_def new_session_def)
  have f2: "length (filter (\<lambda>r. PStr (path r) = PStr ''a.pst'')
              (file_reports (session (init_state (new_session ?t2))))) \<noteq> 1"
    by (simp add: init_state_def new_session_def)
  have q3: "query_error ?bad (PStr ''a.pst'') \<noteq> None"
    by (simp add: query_fails_for_def)
  have s: "\<And>t. session (init_state (new_session t)) = new_session t"
    by (simp add: init_state_def)
  from link [of no_faults "init_state (new_session ?t1)" "[]"] q1 f1
  have r1: "file_report (new_message no_faults (new_session ?t1) (PInt 1) (PStr ''a.pst'') ?kw)
         = Some \<lparr>fr_id = 1, path = ''a.pst''\<rparr>"
    unfolding s by blast
  from link [of no_faults "init_state (new_session ?t2)" "[]"] f2
  have r2: "file_report (new_message no_faults (new_session ?t2) (PInt 1) (PStr ''a.pst'') ?kw)
         = None"
    unfolding s by blast
  from link [of ?bad "init_state (new_session ?t3)" "[]"] q3
  have r3: "file_report (new_message ?bad (new_session ?t3) (PInt 1) (PStr ''a.pst'') ?kw)
         = None"
    unfolding s by blast
  from a b d r1 r2 r3 show ?thesis by blast
qed

section \<open>Commits\<close>

lemma entity_rows_simps [simp]:
  "entity_rows [] = 0"
  "entity_rows (a @ b) = entity_rows a + entity_rows b"
  "entity_rows (MessageRow m # rs) = entity_rows rs"
  "entity_rows (AttachmentRow at # rs) = entity_rows rs"
  "entity_rows (EntityRow e # rs) = Suc (entity_rows rs)"
  by (simp_all add: entity_rows_def)

lemma entity_rows_map_EntityRow [simp]: "entity_rows (map EntityRow es) = length es"
  by (induction es) simp_all

lemma entity_rows_map_AttachmentRow [simp]: "entity_rows (map (\<lambda>a. AttachmentRow (f a)) as) = 0"
  by (induction as) simp_all

text \<open>
  C6: when the buffer has reached the threshold after a successful outcome and the commit
  fails, the turn of the loop returns with the exception logged, one rollback made, one
  commit attempted (no second try), an empty buffer and an empty pending set, and the
  store as it was: the batch is in none of them. The loop goes on with the next event from
  that state.
\<close>

theorem commit_failure_drops_batch:
  assumes "\<not> truthy error"
      and "extract_results res
             = Inr (PEntities ents, message_id, filepath, PAttachments atts, res')"
      and "map_of res' ''pff_identifier'' = None"
      and "RATOM_DB_COMMIT_BATCH_SIZE cfg \<le> int (length (new_entities st) + length ents)"
      and "commit_error db (commit_attempts (session st)) = Some m"
      and "MSG_PROGRESS_STEP cfg \<noteq> 0"
  shows "\<exists>st'. step cfg db st (res, error) = Inr st'
           \<and> new_entities st' = []
           \<and> pending (session st') = []
           \<and> store (session st') = store (session st)
           \<and> commits (session st') = commits (session st)
           \<and> commit_attempts (session st') = Suc (commit_attempts (session st))
           \<and> rollbacks (session st') = Suc (rollbacks (session st))
           \<and> last (logged st') = Exception_logged (PyExc SQLAlchemyError m)
           \<and> loop cfg db st (Outcome (res, error) # evs) = loop cfg db st' evs"
  using assms(4-6)
  by (simp add: step_success [OF assms(1-3)] commit_batch_def session_commit_def
        session_rollback_def session_add_all_def progress_tick_def py_mod_def
        update_progress_def Let_def)

text \<open>
  C6, at a concrete input: threshold 1, a message with one entity, a store whose first
  commit fails.
\<close>

theorem commit_failure_drops_batch_witness:
  "\<not> truthy (snd (success_outcome 1 [(''Bob'', ''PERSON'')]))
   \<and> extract_results (fst (success_outcome 1 [(''Bob'', ''PERSON'')]))
       = Inr (PEntities [(''Bob'', ''PERSON'')], PInt 1, PStr ''a.pst'', PAttachments [],
              [(''processing_start_time'', PTime 0), (''processing_end_time'', PTime 1)])
   \<and> commit_error (commit_fails_at 0 ''disk full'')
        (commit_attempts (session (init_state (new_session [])))) = Some ''disk full''
   \<and> (\<exists>st'. step \<lparr>RATOM_DB_COMMIT_BATCH_SIZE = 1, MSG_PROGRESS_STEP = 10\<rparr>
                (commit_fails_at 0 ''disk full'') (init_state (new_session []))
                (success_outcome 1 [(''Bob'', ''PERSON'')]) = Inr st'
        \<and> new_entities st' = []
        \<and> pending (session st') = []
        \<and> store (session st') = []
        \<and> commit_attempts (session st') = 1
        \<and> rollbacks (session st') = 1
        \<and> last (logged st') = Exception_logged (PyExc SQLAlchemyError ''disk full''))"
proof -
  let ?cfg = "\<lparr>RATOM_DB_COMMIT_BATCH_SIZE = 1, MSG_PROGRESS_STEP = 10\<rparr>"
  let ?st = "init_state (new_session [])"
  have a: "\<not> truthy (snd (success_outcome 1 [(''Bob'', ''PERSON'')]))"
    by (simp add: success_outcome_def)
  have b: "extract_results (fst (success_outcome 1 [(''Bob'', ''PERSON'')]))
       = Inr (PEntities [(''Bob'', ''PERSON'')], PInt 1, PStr ''a.pst'', PAttachments [],
              [(''processing_start_time'', PTime 0), (''processing_end_time'', PTime 1)])"
    by (rule extract_results_success_outcome)
  have c: "map_of [(''processing_start_time'', PTime 0), (''processing_end_time'', PTime 1)]
             ''pff_identifier'' = None"
    by simp
  have d: "RATOM_DB_COMMIT_BATCH_SIZE ?cfg
             \<le> int (length (new_entities ?st) + length [(''Bob'', ''PERSON'')])"
    by (simp add: init_state_def)
  have e: "commit_error (commit_fails_at 0 ''disk full'') (commit_attempts (session ?st))
             = Some ''disk full''"
    by (simp add: commit_fails_at_def init_state_def new_session_def)
  have f: "MSG_PROGRESS_STEP ?cfg \<noteq> 0"
    by simp
  from commit_failure_drops_batch [OF a b c d e f, of "[]"]
  have "\<exists>st'. step ?cfg (commit_fails_at 0 ''disk full'') ?st
                (success_outcome 1 [(''Bob'', ''PERSON'')]) = Inr st'
        \<and> new_entities st' = []
        \<and> pending (session st') = []
        \<and> store (session st') = []
        \<and> commit_attempts (session st') = 1
        \<and> rollbacks (session st') = 1
        \<and> last (logged st') = Exception_logged (PyExc SQLAlchemyError ''disk full'')"
    by (auto simp: init_state_def new_session_def)
  with a b e show ?thesis by blast
qed

text \<open>The number of entities held grows by what an outcome brings, when no commit fails.\<close>

lemma step_held_entities:
  assumes "step cfg db st worker_output = Inr st'"
      and "commit_error db (commit_attempts (session st)) = None"
  shows "held_entities st' = held_entities st + length (outcome_entities worker_output)"
proof (cases worker_output)
  case (Pair res error)
  from assms(1) [unfolded Pair] show ?thesis
  proof (cases rule: step_cases)
    case skip
    then show ?thesis
      using log_skip_Inr [OF skip(2)] by (simp add: held_entities_def outcome_entities_def Pair)
  next
    case (ok u st2)
    obtain entities message_id filepath attachments res' where
      u: "u = (entities, message_id, filepath, attachments, res')"
      by (cases u) auto
    from ok(3) [unfolded u] obtain ents atts where
      st2: "entities = PEntities ents" "attachments = PAttachments atts"
        "session st2 = session_add_all (session st)
            (MessageRow (new_message db (session st) message_id filepath res') #
             map (\<lambda>a. AttachmentRow
                   (new_attachment (new_message db (session st) message_id filepath res') a)) atts)"
        "length (new_entities st2) = length (new_entities st) + length ents"
      by (rule stage_message_Inr) auto
    have ce: "commit_error db (commit_attempts (session st2)) = None"
      using assms(2) st2(3) by (simp add: session_add_all_def)
    have "held_entities (commit_batch cfg db st2) = held_entities st2"
      by (simp add: commit_batch_ok [OF ce] held_entities_def)
    moreover have "held_entities st' = held_entities (commit_batch cfg db st2)"
      using progress_tick_Inr [OF ok(4)] by (simp add: held_entities_def)
    moreover have "held_entities st2 = held_entities st + length ents"
      using st2 by (simp add: held_entities_def session_add_all_def)
    moreover have "outcome_entities worker_output = ents"
      using extract_results_entities [OF ok(2) [unfolded u]] ok(1) st2(1)
      by (simp add: outcome_entities_def Pair)
    ultimately show ?thesis by simp
  qed
qed

lemma loop_held_entities:
  assumes "loop cfg db st events = (st', Exhausted)" and "no_commit_error db"
  shows "held_entities st' = held_entities st + produced_entities events"
  using assms
proof (induction cfg db st events rule: loop.induct)
  case (1 cfg db st)
  then show ?case by simp
next
  case (2 cfg db st evs)
  then show ?case by simp
next
  case (3 cfg db st worker_output evs)
  from "3.prems"(1) obtain st1 where
    st1: "step cfg db st worker_output = Inr st1" "loop cfg db st1 evs = (st', Exhausted)"
    by (auto split: sum.splits)
  have "held_entities st1 = held_entities st + length (outcome_entities worker_output)"
    using step_held_entities [OF st1(1)] "3.prems"(2) by (simp add: no_commit_error_def)
  moreover have "held_entities st' = held_entities st1 + produced_entities evs"
    using "3.IH" [OF st1(1) st1(2) "3.prems"(2)] .
  ultimately show ?case by simp
qed

text \<open>The link of a message depends on the session through the table only.\<close>

lemma new_message_file_reports:
  assumes "file_reports s = file_reports s'"
  shows "new_message db s = new_message db s'"
  unfolding new_message_def link_file_report_def query_one_def assms ..

lemma outcome_rows_file_reports:
  assumes "file_reports s = file_reports s'"
  shows "outcome_rows db s = outcome_rows db s'"
  unfolding outcome_rows_def new_message_file_reports [OF assms] ..

lemma run_rows_file_reports:
  assumes "file_reports s = file_reports s'"
  shows "run_rows db s evs = run_rows db s' evs"
  by (induction evs rule: produced_entities.induct)
     (simp_all add: outcome_rows_file_reports [OF assms])

lemma commit_batch_held_rows:
  assumes "commit_error db (commit_attempts (session st)) = None"
  shows "held_rows (commit_batch cfg db st) = held_rows st"
    and "file_reports (session (commit_batch cfg db st)) = file_reports (session st)"
  by (simp_all add: commit_batch_ok [OF assms] held_rows_def)

text \<open>What one turn of the loop does to the rows held when no commit fails.\<close>

lemma step_no_commit_error:
  assumes "step cfg db st worker_output = Inr st'"
      and "commit_error db (commit_attempts (session st)) = None"
  shows "held_rows st' = held_rows st + mset (outcome_rows db (session st) worker_output)"
    and "file_reports (session st') = file_reports (session st)"
proof -
  obtain res error where wo: "worker_output = (res, error)"
    by (cases worker_output) auto
  from assms(1) [unfolded wo]
  have "held_rows st' = held_rows st + mset (outcome_rows db (session st) worker_output)
        \<and> file_reports (session st') = file_reports (session st)"
  proof (cases rule: step_cases)
    case skip
    then show ?thesis
      using log_skip_Inr [OF skip(2)] by (simp add: held_rows_def outcome_rows_def wo)
  next
    case (ok u st2)
    obtain entities message_id filepath attachments res' where
      u: "u = (entities, message_id, filepath, attachments, res')"
      by (cases u) auto
    let ?m = "new_message db (session st) message_id filepath res'"
    have pff: "map_of res' ''pff_identifier'' = None"
      using ok(3) by (auto simp: u stage_message_def split: if_splits)
    from ok(3) [unfolded u] obtain ents atts where
      st2: "entities = PEntities ents" "attachments = PAttachments atts"
        "session st2 = session_add_all (session st)
            (MessageRow ?m # map (\<lambda>a. AttachmentRow (new_attachment ?m a)) atts)"
        "new_entities st2 = new_entities st @ map (new_entity ?m filepath) ents"
      by (rule stage_message_Inr) auto
    have ce: "commit_error db (commit_attempts (session st2)) = None"
      using assms(2) st2(3) by (simp add: session_add_all_def)
    have rows: "outcome_rows db (session st) worker_output =
        MessageRow ?m # map (\<lambda>a. AttachmentRow (new_attachment ?m a)) atts @
        map (\<lambda>e. EntityRow (new_entity ?m filepath e)) ents"
      using ok(1,2) pff by (simp add: outcome_rows_def wo u st2(1,2))
    have "held_rows st2 = held_rows st + mset (outcome_rows db (session st) worker_output)"
      by (simp add: held_rows_def st2(3,4) rows session_add_all_def comp_def)
    moreover have "file_reports (session st2) = file_reports (session st)"
      by (simp add: st2(3) session_add_all_def)
    moreover have "held_rows st' = held_rows (commit_batch cfg db st2)"
        "session st' = session (commit_batch cfg db st2)"
      using progress_tick_Inr [OF ok(4)] by (simp_all add: held_rows_def)
    ultimately show ?thesis
      using commit_batch_held_rows [OF ce, of cfg] by simp
  qed
  then show "held_rows st' = held_rows st + mset (outcome_rows db (session st) worker_output)"
    and "file_reports (session st') = file_reports (session st)"
    by simp_all
qed

lemma loop_held_rows:
  assumes "loop cfg db st events = (st', Exhausted)" and "no_commit_error db"
  shows "held_rows st' = held_rows st + mset (run_rows db (session st) events)"
  using assms
proof (induction cfg db st events rule: loop.induct)
  case (3 cfg db st worker_output evs)
  from "3.prems"(1) obtain st1 where
    st1: "step cfg db st worker_output = Inr st1" "loop cfg db st1 evs = (st', Exhausted)"
    by (auto split: sum.splits)
  have ce: "commit_error db (commit_attempts (session st)) = None"
    using "3.prems"(2) by (simp add: no_commit_error_def)
  have "held_rows st' = held_rows st1 + mset (run_rows db (session st1) evs)"
    using "3.IH" [OF st1 "3.prems"(2)] .
  moreover have "run_rows db (session st1) evs = run_rows db (session st) evs"
    using step_no_commit_error(2) [OF st1(1) ce] by (rule run_rows_file_reports)
  ultimately show ?case
    using step_no_commit_error(1) [OF st1(1) ce] by simp
qed simp_all

lemma step_buffer_commits:
  assumes "step cfg db st worker_output = Inr st'"
      and "commit_error db (commit_attempts (session st)) = None"
  shows "(if RATOM_DB_COMMIT_BATCH_SIZE cfg
            \<le> int (length (new_entities st) + length (outcome_entities worker_output))
          then length (new_entities st') = 0 \<and> commits (session st') = Suc (commits (session st))
          else length (new_entities st')
                 = length (new_entities st) + length (outcome_entities worker_output)
               \<and> commits (session st') = commits (session st))
         \<or> (truthy (snd worker_output) \<and> length (new_entities st') = length (new_entities st)
             \<and> commits (session st') = commits (session st)
             \<and> outcome_entities worker_output = [])"
proof -
  obtain res error where wo: "worker_output = (res, error)"
    by (cases worker_output) auto
  from assms(1) [unfolded wo] show ?thesis
  proof (cases rule: step_cases)
    case skip
    then show ?thesis
      using log_skip_Inr [OF skip(2)] by (simp add: wo outcome_entities_def)
  next
    case (ok u st2)
    obtain entities message_id filepath attachments res' where
      u: "u = (entities, message_id, filepath, attachments, res')"
      by (cases u) auto
    let ?m = "new_message db (session st) message_id filepath res'"
    from ok(3) [unfolded u] obtain ents atts where
      st2: "entities = PEntities ents" "attachments = PAttachments atts"
        "session st2 = session_add_all (session st)
            (MessageRow ?m # map (\<lambda>a. AttachmentRow (new_attachment ?m a)) atts)"
        "new_entities st2 = new_entities st @ map (new_entity ?m filepath) ents"
      by (rule stage_message_Inr) auto
    have ce: "commit_error db (commit_attempts (session st2)) = None"
      using assms(2) st2(3) by (simp add: session_add_all_def)
    have oe: "outcome_entities worker_output = ents"
      using extract_results_entities [OF ok(2) [unfolded u]] ok(1) st2(1)
      by (simp add: outcome_entities_def wo)
    have t: "session st' = session (commit_batch cfg db st2)"
        "new_entities st' = new_entities (commit_batch cfg db st2)"
      using progress_tick_Inr [OF ok(4)] by simp_all
    show ?thesis
      by (simp add: t commit_batch_ok [OF ce] oe st2(3,4) session_add_all_def)
  qed
qed

text \<open>The buffer stays below a positive threshold.\<close>

lemma loop_buffer_bound:
  assumes "loop cfg db st events = (st', Exhausted)" and "no_commit_error db"
      and "0 < RATOM_DB_COMMIT_BATCH_SIZE cfg"
      and "int (length (new_entities st)) < RATOM_DB_COMMIT_BATCH_SIZE cfg"
  shows "int (length (new_entities st')) < RATOM_DB_COMMIT_BATCH_SIZE cfg"
  using assms
proof (induction cfg db st events rule: loop.induct)
  case (3 cfg db st worker_output evs)
  from "3.prems"(1) obtain st1 where
    st1: "step cfg db st worker_output = Inr st1" "loop cfg db st1 evs = (st', Exhausted)"
    by (auto split: sum.splits)
  have ce: "commit_error db (commit_attempts (session st)) = None"
    using "3.prems"(2) by (simp add: no_commit_error_def)
  have "int (length (new_entities st1)) < RATOM_DB_COMMIT_BATCH_SIZE cfg"
    using step_buffer_commits [OF st1(1) ce] "3.prems"(3,4)
    by (auto split: if_splits)
  then show ?case
    using "3.IH" [OF st1 "3.prems"(2,3)] by simp
qed simp_all

text \<open>Every commit takes at least a threshold of entities out of the buffer.\<close>

lemma step_commits_bound:
  assumes "step cfg db st worker_output = Inr st'"
      and "commit_error db (commit_attempts (session st)) = None"
  shows "commits (session st) \<le> commits (session st') \<and>
         int (commits (session st')) * RATOM_DB_COMMIT_BATCH_SIZE cfg
           + int (length (new_entities st'))
         \<le> int (commits (session st)) * RATOM_DB_COMMIT_BATCH_SIZE cfg
           + int (length (new_entities st)) + int (length (outcome_entities worker_output))"
  using step_buffer_commits [OF assms]
  by (auto simp: algebra_simps split: if_splits)

lemma loop_commits_bound:
  assumes "loop cfg db st events = (st', Exhausted)" and "no_commit_error db"
  shows "commits (session st) \<le> commits (session st') \<and>
         int (commits (session st')) * RATOM_DB_COMMIT_BATCH_SIZE cfg
           + int (length (new_entities st'))
         \<le> int (commits (session st)) * RATOM_DB_COMMIT_BATCH_SIZE cfg
           + int (length (new_entities st)) + int (produced_entities events)"
  using assms
proof (induction cfg db st events rule: loop.induct)
  case (3 cfg db st worker_output evs)
  from "3.prems"(1) obtain st1 where
    st1: "step cfg db st worker_output = Inr st1" "loop cfg db st1 evs = (st', Exhausted)"
    by (auto split: sum.splits)
  have ce: "commit_error db (commit_attempts (session st)) = None"
    using "3.prems"(2) by (simp add: no_commit_error_def)
  show ?case
    using "3.IH" [OF st1 "3.prems"(2)] step_commits_bound [OF st1(1) ce]
    by simp
qed simp_all

text \<open>When no outcome brings more than one entity, every commit takes exactly a threshold.\<close>

lemma step_commits_exact:
  assumes "step cfg db st worker_output = Inr st'"
      and "commit_error db (commit_attempts (session st)) = None"
      and "0 < RATOM_DB_COMMIT_BATCH_SIZE cfg"
      and "int (length (new_entities st)) < RATOM_DB_COMMIT_BATCH_SIZE cfg"
      and "length (outcome_entities worker_output) \<le> 1"
  shows "int (commits (session st')) * RATOM_DB_COMMIT_BATCH_SIZE cfg
           + int (length (new_entities st'))
         = int (commits (session st)) * RATOM_DB_COMMIT_BATCH_SIZE cfg
           + int (length (new_entities st)) + int (length (outcome_entities worker_output))
         \<and> int (length (new_entities st')) < RATOM_DB_COMMIT_BATCH_SIZE cfg"
  using step_buffer_commits [OF assms(1,2)] assms(3-5)
  by (auto simp: algebra_simps split: if_splits)

lemma loop_commits_exact:
  assumes "loop cfg db st events = (st', Exhausted)" and "no_commit_error db"
      and "0 < RATOM_DB_COMMIT_BATCH_SIZE cfg"
      and "int (length (new_entities st)) < RATOM_DB_COMMIT_BATCH_SIZE cfg"
      and "\<forall>worker_output. Outcome worker_output \<in> set events \<longrightarrow>
             length (outcome_entities worker_output) \<le> 1"
  shows "int (commits (session st')) * RATOM_DB_COMMIT_BATCH_SIZE cfg
           + int (length (new_entities st'))
         = int (commits (session st)) * RATOM_DB_COMMIT_BATCH_SIZE cfg
           + int (length (new_entities st)) + int (produced_entities events)"
  using assms
proof (induction cfg db st events rule: loop.induct)
  case (3 cfg db st worker_output evs)
  from "3.prems"(1) obtain st1 where
    st1: "step cfg db st worker_output = Inr st1" "loop cfg db st1 evs = (st', Exhausted)"
    by (auto split: sum.splits)
  have ce: "commit_error db (commit_attempts (session st)) = None"
    using "3.prems"(2) by (simp add: no_commit_error_def)
  have one: "length (outcome_entities worker_output) \<le> 1"
    using "3.prems"(5) [rule_format, of worker_output] by simp
  have rest: "\<forall>worker_output. Outcome worker_output \<in> set evs \<longrightarrow>
             length (outcome_entities worker_output) \<le> 1"
    using "3.prems"(5) by (simp del: split_paired_All)
  note s = step_commits_exact [OF st1(1) ce "3.prems"(3,4) one]
  show ?case
    using "3.IH" [OF st1 "3.prems"(2,3) s [THEN conjunct2] rest] s by simp
qed simp_all

lemma multiple_of_threshold:
  fixes B :: int
  assumes "0 < B" "0 \<le> b" "b < B" "k * B + b = m * B"
  shows "k = m \<and> b = 0"
proof -
  have "b = (m - k) * B"
    using assms(4) by (simp add: algebra_simps)
  then have "B dvd b" by simp
  then have "b = 0"
    using assms(1-3) zdvd_imp_le [of B b] by (cases "b = 0") auto
  then show ?thesis using assms(1,4) by simp
qed

text \<open>
  C7, as the claim states it, fails on the code: the threshold is tested once per message,
  on the whole buffer. With threshold 2, one message with four entities makes
  \<open>2 * 2\<close> buffered entities and one commit; a message with three entities followed by
  a message with one makes \<open>2 * 2\<close> buffered entities, one commit, and three entities
  in the store.
\<close>

theorem commit_count_counterexample:
  "no_commit_error no_faults
   \<and> produced_entities
        [Outcome (success_outcome 1
           [(''Ann'', ''PERSON''), (''Bob'', ''PERSON''), (''Acme'', ''ORG''), (''Oslo'', ''GPE'')])]
       = 2 * 2
   \<and> snd (extract_entities \<lparr>RATOM_DB_COMMIT_BATCH_SIZE = 2, MSG_PROGRESS_STEP = 10\<rparr>
        no_faults (new_session [])
        [Outcome (success_outcome 1
           [(''Ann'', ''PERSON''), (''Bob'', ''PERSON''), (''Acme'', ''ORG''), (''Oslo'', ''GPE'')])])
       = Returned 0
   \<and> commits (session (fst (extract_entities
        \<lparr>RATOM_DB_COMMIT_BATCH_SIZE = 2, MSG_PROGRESS_STEP = 10\<rparr>
        no_faults (new_session [])
        [Outcome (success_outcome 1
           [(''Ann'', ''PERSON''), (''Bob'', ''PERSON''), (''Acme'', ''ORG''), (''Oslo'', ''GPE'')])])))
       = 1
   \<and> produced_entities
        [Outcome (success_outcome 1 [(''Ann'', ''PERSON''), (''Bob'', ''PERSON''), (''Acme'', ''ORG'')]),
         Outcome (success_outcome 2 [(''Oslo'', ''GPE'')])]
       = 2 * 2
   \<and> commits (session (fst (extract_entities
        \<lparr>RATOM_DB_COMMIT_BATCH_SIZE = 2, MSG_PROGRESS_STEP = 10\<rparr>
        no_faults (new_session [])
        [Outcome (success_outcome 1 [(''Ann'', ''PERSON''), (''Bob'', ''PERSON''), (''Acme'', ''ORG'')]),
         Outcome (success_outcome 2 [(''Oslo'', ''GPE'')])])))
       = 1
   \<and> entity_rows (store (session (fst (extract_entities
        \<lparr>RATOM_DB_COMMIT_BATCH_SIZE = 2, MSG_PROGRESS_STEP = 10\<rparr>
        no_faults (new_session [])
        [Outcome (success_outcome 1 [(''Ann'', ''PERSON''), (''Bob'', ''PERSON''), (''Acme'', ''ORG'')]),
         Outcome (success_outcome 2 [(''Oslo'', ''GPE'')])]))))
       = 3"
  by (simp add: run_defs no_faults_def new_session_def no_commit_error_def
        outcome_entities_def success_outcome_def)

text \<open>
  C7, amended: in a run without commit failure, with threshold \<open>B\<close> and \<open>N\<close>
  entities buffered so far, the number \<open>k\<close> of commits made satisfies
  \<open>k * B \<le> N\<close>; for a positive threshold fewer than \<open>B\<close> entities are left in the
  buffer, and when no message brings more than one entity, \<open>N = m * B\<close> gives exactly
  \<open>m\<close> commits and an empty buffer. Every message, attachment and entity of the
  successful outcomes is in the store, in the pending set or in the buffer, once. A commit
  at the threshold moves the pending set and the whole buffer into the store and leaves
  both empty.
\<close>

theorem commit_batches:
  assumes "no_commit_error db"
      and "loop cfg db (init_state s) events = (st, Exhausted)"
  shows "\<exists>k. commits (session st) = commits s + k
           \<and> int k * RATOM_DB_COMMIT_BATCH_SIZE cfg \<le> int (produced_entities events)
           \<and> (0 < RATOM_DB_COMMIT_BATCH_SIZE cfg \<longrightarrow>
                int (length (new_entities st)) < RATOM_DB_COMMIT_BATCH_SIZE cfg)
           \<and> (0 < RATOM_DB_COMMIT_BATCH_SIZE cfg \<longrightarrow>
              (\<forall>worker_output. Outcome worker_output \<in> set events \<longrightarrow>
                 length (outcome_entities worker_output) \<le> 1) \<longrightarrow>
              (\<forall>m. int (produced_entities events) = int m * RATOM_DB_COMMIT_BATCH_SIZE cfg \<longrightarrow>
                 k = m \<and> new_entities st = []))
           \<and> mset (store (session st)) + mset (pending (session st))
               + mset (map EntityRow (new_entities st))
             = mset (store s) + mset (pending s) + mset (run_rows db s events)
           \<and> (\<forall>st0. RATOM_DB_COMMIT_BATCH_SIZE cfg \<le> int (length (new_entities st0)) \<longrightarrow>
                 store (session (commit_batch cfg db st0))
                   = store (session st0) @ pending (session st0)
                       @ map EntityRow (new_entities st0)
                 \<and> pending (session (commit_batch cfg db st0)) = []
                 \<and> new_entities (commit_batch cfg db st0) = []
                 \<and> commits (session (commit_batch cfg db st0)) = Suc (commits (session st0)))"
proof -
  let ?B = "RATOM_DB_COMMIT_BATCH_SIZE cfg"
  note bound = loop_commits_bound [OF assms(2,1), of ]
  from bound obtain k where k: "commits (session st) = commits s + k"
    by (auto simp: init_state_def le_iff_add)
  have le: "int k * ?B \<le> int (produced_entities events)"
  proof -
    have "int (commits s + k) * ?B + int (length (new_entities st))
            \<le> int (commits s) * ?B + int (produced_entities events)"
      using bound by (simp add: init_state_def k)
    then show ?thesis by (simp add: algebra_simps)
  qed
  have small: "0 < ?B \<longrightarrow> int (length (new_entities st)) < ?B"
    using loop_buffer_bound [OF assms(2,1)] by (simp add: init_state_def)
  have exact: "0 < ?B \<longrightarrow>
              (\<forall>worker_output. Outcome worker_output \<in> set events \<longrightarrow>
                 length (outcome_entities worker_output) \<le> 1) \<longrightarrow>
              (\<forall>m. int (produced_entities events) = int m * ?B \<longrightarrow>
                 k = m \<and> new_entities st = [])"
  proof (intro impI allI)
    fix m
    assume pos: "0 < ?B"
       and one: "\<forall>worker_output. Outcome worker_output \<in> set events \<longrightarrow>
                 length (outcome_entities worker_output) \<le> 1"
       and m: "int (produced_entities events) = int m * ?B"
    have b0: "int (length (new_entities (init_state s))) < ?B"
      using pos by (simp add: init_state_def)
    have "int (commits s + k) * ?B + int (length (new_entities st))
            = int (commits s) * ?B + int (produced_entities events)"
      using loop_commits_exact [OF assms(2,1) pos b0 one] by (simp add: init_state_def k)
    then have "int k * ?B + int (length (new_entities st)) = int m * ?B"
      by (simp add: algebra_simps m)
    from multiple_of_threshold [OF pos _ _ this] small pos
    show "k = m \<and> new_entities st = []" by simp
  qed
  have rows: "mset (store (session st)) + mset (pending (session st))
               + mset (map EntityRow (new_entities st))
             = mset (store s) + mset (pending s) + mset (run_rows db s events)"
    using loop_held_rows [OF assms(2,1)] by (simp add: held_rows_def init_state_def)
  have batch: "\<forall>st0. ?B \<le> int (length (new_entities st0)) \<longrightarrow>
                 store (session (commit_batch cfg db st0))
                   = store (session st0) @ pending (session st0)
                       @ map EntityRow (new_entities st0)
                 \<and> pending (session (commit_batch cfg db st0)) = []
                 \<and> new_entities (commit_batch cfg db st0) = []
                 \<and> commits (session (commit_batch cfg db st0)) = Suc (commits (session st0))"
  proof (intro allI impI)
    fix st0 :: state
    assume "?B \<le> int (length (new_entities st0))"
    moreover have "commit_error db (commit_attempts (session st0)) = None"
      using assms(1) by (simp add: no_commit_error_def)
    ultimately show "store (session (commit_batch cfg db st0))
                   = store (session st0) @ pending (session st0)
                       @ map EntityRow (new_entities st0)
                 \<and> pending (session (commit_batch cfg db st0)) = []
                 \<and> new_entities (commit_batch cfg db st0) = []
                 \<and> commits (session (commit_batch cfg db st0)) = Suc (commits (session st0))"
      by (simp add: commit_batch_ok)
  qed
  from k le small exact rows batch show ?thesis by blast
qed

text \<open>
  C7, at a concrete input: threshold 2 and four messages with one entity each give two
  commits and an empty buffer.
\<close>

theorem commit_batches_witness:
  "no_commit_error no_faults
   \<and> snd (loop \<lparr>RATOM_DB_COMMIT_BATCH_SIZE = 2, MSG_PROGRESS_STEP = 10\<rparr> no_faults
            (init_state (new_session []))
            [Outcome (success_outcome 1 [(''Ann'', ''PERSON'')]),
             Outcome (success_outcome 2 [(''Bob'', ''PERSON'')]),
             Outcome (success_outcome 3 [(''Acme'', ''ORG'')]),
             Outcome (success_outcome 4 [(''Oslo'', ''GPE'')])]) = Exhausted
   \<and> int (produced_entities
            [Outcome (success_outcome 1 [(''Ann'', ''PERSON'')]),
             Outcome (success_outcome 2 [(''Bob'', ''PERSON'')]),
             Outcome (success_outcome 3 [(''Acme'', ''ORG'')]),
             Outcome (success_outcome 4 [(''Oslo'', ''GPE'')])]) = int 2 * 2
   \<and> commits (session (fst (loop \<lparr>RATOM_DB_COMMIT_BATCH_SIZE = 2, MSG_PROGRESS_STEP = 10\<rparr>
            no_faults (init_state (new_session []))
            [Outcome (success_outcome 1 [(''Ann'', ''PERSON'')]),
             Outcome (success_outcome 2 [(''Bob'', ''PERSON'')]),
             Outcome (success_outcome 3 [(''Acme'', ''ORG'')]),
             Outcome (success_outcome 4 [(''Oslo'', ''GPE'')])]))) = 2
   \<and> new_entities (fst (loop \<lparr>RATOM_DB_COMMIT_BATCH_SIZE = 2, MSG_PROGRESS_STEP = 10\<rparr>
            no_faults (init_state (new_session []))
            [Outcome (success_outcome 1 [(''Ann'', ''PERSON'')]),
             Outcome (success_outcome 2 [(''Bob'', ''PERSON'')]),
             Outcome (success_outcome 3 [(''Acme'', ''ORG'')]),
             Outcome (success_outcome 4 [(''Oslo'', ''GPE'')])])) = []"
proof -
  let ?cfg = "\<lparr>RATOM_DB_COMMIT_BATCH_SIZE = 2, MSG_PROGRESS_STEP = 10\<rparr>"
  let ?evs = "[Outcome (success_outcome 1 [(''Ann'', ''PERSON'')]),
             Outcome (success_outcome 2 [(''Bob'', ''PERSON'')]),
             Outcome (success_outcome 3 [(''Acme'', ''ORG'')]),
             Outcome (success_outcome 4 [(''Oslo'', ''GPE'')])]"
  let ?l = "loop ?cfg no_faults (init_state (new_session [])) ?evs"
  have n: "no_commit_error no_faults"
    by (simp add: no_commit_error_def no_faults_def)
  have x: "snd ?l = Exhausted"
    by (simp add: run_defs no_faults_def new_session_def success_outcome_def)
  then have l: "?l = (fst ?l, Exhausted)"
    by (metis prod.collapse)
  have p: "int (produced_entities ?evs) = int 2 * RATOM_DB_COMMIT_BATCH_SIZE ?cfg"
    by (simp add: outcome_entities_def success_outcome_def)
  have pos: "0 < RATOM_DB_COMMIT_BATCH_SIZE ?cfg"
    by simp
  have one: "\<forall>worker_output. Outcome worker_output \<in> set ?evs \<longrightarrow>
                 length (outcome_entities worker_output) \<le> 1"
    by (auto simp: outcome_entities_def success_outcome_def)
  from commit_batches [OF n l] obtain k where
    k: "commits (session (fst ?l)) = commits (new_session []) + k"
    and e: "0 < RATOM_DB_COMMIT_BATCH_SIZE ?cfg \<longrightarrow>
              (\<forall>worker_output. Outcome worker_output \<in> set ?evs \<longrightarrow>
                 length (outcome_entities worker_output) \<le> 1) \<longrightarrow>
              (\<forall>m. int (produced_entities ?evs) = int m * RATOM_DB_COMMIT_BATCH_SIZE ?cfg \<longrightarrow>
                 k = m \<and> new_entities (fst ?l) = [])"
    by blast
  from e pos one p have "k = 2 \<and> new_entities (fst ?l) = []"
    by blast
  with k have "commits (session (fst ?l)) = 2 \<and> new_entities (fst ?l) = []"
    by (simp add: new_session_def)
  with n x p show ?thesis by simp
qed

section \<open>The end of the run\<close>

text \<open>
  C1, as the claim states it, fails on the code: after the loop
  \<^verbatim>\<open>extract_entities\<close> adds the buffered entities to the session and does not
  commit. With the default threshold, a run over one message with one entity returns 0
  with no commit attempted and no Entity row in the store.
\<close>

theorem extract_entities_no_final_commit_counterexample:
  "snd (extract_entities default_config no_faults (new_session [])
          [Outcome (success_outcome 1 [(''Bob'', ''PERSON'')])]) = Returned 0
   \<and> produced_entities
          [Outcome (success_outcome 1 [(''Bob'', ''PERSON'')])] = 1
   \<and> entity_rows (store (session (fst (extract_entities default_config no_faults (new_session [])
          [Outcome (success_outcome 1 [(''Bob'', ''PERSON'')])])))) = 0
   \<and> commit_attempts (session (fst (extract_entities default_config no_faults (new_session [])
          [Outcome (success_outcome 1 [(''Bob'', ''PERSON'')])]))) = 0"
  by (simp add: run_defs default_config_def no_faults_def new_session_def outcome_entities_def
        success_outcome_def error_outcome_def)

text \<open>
  C1, amended: in every run of \<^verbatim>\<open>extract_entities\<close> that drains the stream and
  returns 0, the buffered entities left after the last outcome are added to the session,
  and no commit is made after the loop; when no commit fails, the number of Entity rows
  in the store or pending in the session has grown by the number of (span text, label)
  pairs of the successful outcomes.
\<close>

theorem extract_entities_stages_all_entities:
  assumes "no_commit_error db"
      and "extract_entities cfg db s events = (st, Returned 0)"
  shows "\<exists>st0. loop cfg db (init_state s) events = (st0, Exhausted)
           \<and> session st = session_add_all (session st0) (map EntityRow (new_entities st0))
           \<and> commits (session st) = commits (session st0)
           \<and> commit_attempts (session st) = commit_attempts (session st0)
           \<and> entity_rows (store (session st)) + entity_rows (pending (session st))
               = entity_rows (store s) + entity_rows (pending s) + produced_entities events"
proof -
  from assms(2) obtain st0 where
    l: "loop cfg db (init_state s) events = (st0, Exhausted)" and
    f: "finish cfg st0 = (st, Returned 0)"
    by (rule extract_entities_Returned_0)
  have st: "session st = session_add_all (session st0) (map EntityRow (new_entities st0))"
    using finish_Returned [OF f] by simp
  have "held_entities st0 = held_entities (init_state s) + produced_entities events"
    using loop_held_entities [OF l assms(1)] .
  then have "entity_rows (store (session st)) + entity_rows (pending (session st))
               = entity_rows (store s) + entity_rows (pending s) + produced_entities events"
    by (simp add: st held_entities_def session_add_all_def init_state_def)
  with l st show ?thesis
    by (auto simp: session_add_all_def)
qed

text \<open>
  C1, at a concrete input: one message with two entities.
\<close>

theorem extract_entities_stages_all_entities_witness:
  "no_commit_error no_faults
   \<and> snd (extract_entities default_config no_faults (new_session [])
          [Outcome (success_outcome 1 [(''Bob'', ''PERSON''), (''Acme'', ''ORG'')])]) = Returned 0
   \<and> entity_rows (store (session (fst (extract_entities default_config no_faults (new_session [])
          [Outcome (success_outcome 1 [(''Bob'', ''PERSON''), (''Acme'', ''ORG'')])]))))
     + entity_rows (pending (session (fst (extract_entities default_config no_faults (new_session [])
          [Outcome (success_outcome 1 [(''Bob'', ''PERSON''), (''Acme'', ''ORG'')])])))) = 2"
proof -
  let ?evs = "[Outcome (success_outcome 1 [(''Bob'', ''PERSON''), (''Acme'', ''ORG'')])]"
  let ?run = "extract_entities default_config no_faults (new_session []) ?evs"
  have n: "no_commit_error no_faults"
    by (simp add: no_commit_error_def no_faults_def)
  have r: "snd ?run = Returned 0"
    by (simp add: run_defs default_config_def no_faults_def new_session_def
        success_outcome_def error_outcome_def)
  then have e: "?run = (fst ?run, Returned 0)"
    by (metis prod.collapse)
  have p: "produced_entities ?evs = 2"
    by (simp add: outcome_entities_def success_outcome_def)
  from extract_entities_stages_all_entities [OF n e] p
  have "entity_rows (store (session (fst ?run))) + entity_rows (pending (session (fst ?run))) = 2"
    by (auto simp: new_session_def)
  with n r show ?thesis by simp
qed



section \<open>Progress\<close>

text \<open>
  C3 fails on the code: the \<^verbatim>\<open>continue\<close> of line 201 skips the progress update of
  lines 260 to 262. With step 2 and two outcomes of which the second has an error, the
  callback is called once, with 0; the claim gives a call with 2 and then one with 0, which
  is what the same two outcomes give in the other order.
\<close>

theorem progress_skipped_on_error_outcome:
  "progress (fst (extract_entities \<lparr>RATOM_DB_COMMIT_BATCH_SIZE = 10000, MSG_PROGRESS_STEP = 2\<rparr>
       no_faults (new_session [])
       [Outcome (success_outcome 1 []),
        Outcome (error_outcome 2 ''boom'')])) = [0]
   \<and> snd (extract_entities \<lparr>RATOM_DB_COMMIT_BATCH_SIZE = 10000, MSG_PROGRESS_STEP = 2\<rparr>
       no_faults (new_session [])
       [Outcome (success_outcome 1 []),
        Outcome (error_outcome 2 ''boom'')]) = Returned 0
   \<and> progress (fst (extract_entities \<lparr>RATOM_DB_COMMIT_BATCH_SIZE = 10000, MSG_PROGRESS_STEP = 2\<rparr>
       no_faults (new_session [])
       [Outcome (error_outcome 2 ''boom''),
        Outcome (success_outcome 1 [])]))
       = [2, 0]"
  by (simp add: run_defs no_faults_def new_session_def success_outcome_def error_outcome_def)

text \<open>
  C10: in a run that returns 0 over a number of outcomes that is a multiple of the
  progress step, the last call of the callback has the increment 0; on the empty stream,
  for a step other than 0, \<^verbatim>\<open>extract_entities\<close> calls it once, with 0, and
  returns 0.
\<close>

theorem final_progress_increment_zero:
  "(extract_entities cfg db s events = (st, Returned 0) \<longrightarrow>
      MSG_PROGRESS_STEP cfg dvd int (length events) \<longrightarrow>
        msg_count st = int (length events) \<and> progress st \<noteq> [] \<and> last (progress st) = 0)
   \<and> (MSG_PROGRESS_STEP cfg \<noteq> 0 \<longrightarrow>
        snd (extract_entities cfg db s []) = Returned 0
        \<and> progress (fst (extract_entities cfg db s [])) = [0])"
proof (intro conjI impI)
  assume run: "extract_entities cfg db s events = (st, Returned 0)"
     and dvd: "MSG_PROGRESS_STEP cfg dvd int (length events)"
  from run obtain st0 where
    l: "loop cfg db (init_state s) events = (st0, Exhausted)" and
    f: "finish cfg st0 = (st, Returned 0)"
    by (rule extract_entities_Returned_0)
  have m: "msg_count st0 = int (length events)"
    using loop_msg_count [OF l] by (simp add: init_state_def)
  have st: "progress st = progress st0 @ [msg_count st0 mod MSG_PROGRESS_STEP cfg]"
       "msg_count st = msg_count st0"
    using finish_Returned [OF f] by simp_all
  show "msg_count st = int (length events)" using st m by simp
  show "progress st \<noteq> []" using st by simp
  show "last (progress st) = 0" using st m dvd by simp
next
  assume "MSG_PROGRESS_STEP cfg \<noteq> 0"
  then show "snd (extract_entities cfg db s []) = Returned 0"
    by (simp add: run_defs)
next
  assume "MSG_PROGRESS_STEP cfg \<noteq> 0"
  then show "progress (fst (extract_entities cfg db s [])) = [0]"
    by (simp add: run_defs)
qed

text \<open>
  C10, at concrete inputs: step 2 and two outcomes, and the empty stream with the default
  step.
\<close>

theorem final_progress_increment_zero_witness:
  "snd (extract_entities \<lparr>RATOM_DB_COMMIT_BATCH_SIZE = 10000, MSG_PROGRESS_STEP = 2\<rparr>
       no_faults (new_session [])
       [Outcome (success_outcome 1 []),
        Outcome (success_outcome 2 [])])
     = Returned 0
   \<and> (2::int) dvd int (length [Outcome ([], None), Outcome ([], None)])
   \<and> last (progress (fst (extract_entities
       \<lparr>RATOM_DB_COMMIT_BATCH_SIZE = 10000, MSG_PROGRESS_STEP = 2\<rparr>
       no_faults (new_session [])
       [Outcome (success_outcome 1 []),
        Outcome (success_outcome 2 [])])))
     = 0
   \<and> MSG_PROGRESS_STEP default_config \<noteq> 0
   \<and> snd (extract_entities default_config no_faults (new_session []) []) = Returned 0
   \<and> progress (fst (extract_entities default_config no_faults (new_session []) [])) = [0]"
proof -
  let ?cfg = "\<lparr>RATOM_DB_COMMIT_BATCH_SIZE = 10000, MSG_PROGRESS_STEP = 2\<rparr>"
  let ?evs = "[Outcome (success_outcome 1 []),
        Outcome (success_outcome 2 [])]"
  let ?run = "extract_entities ?cfg no_faults (new_session []) ?evs"
  have r: "snd ?run = Returned 0"
    by (simp add: run_defs no_faults_def new_session_def success_outcome_def error_outcome_def)
  then have e: "?run = (fst ?run, Returned 0)"
    by (metis prod.collapse)
  have d: "MSG_PROGRESS_STEP ?cfg dvd int (length ?evs)"
    by simp
  have z: "MSG_PROGRESS_STEP default_config \<noteq> 0"
    by (simp add: default_config_def)
  from final_progress_increment_zero [of ?cfg no_faults "new_session []" ?evs "fst ?run"] e d
  have "last (progress (fst ?run)) = 0" by blast
  moreover
  from final_progress_increment_zero [of default_config no_faults "new_session []"] z
  have "snd (extract_entities default_config no_faults (new_session []) []) = Returned 0
        \<and> progress (fst (extract_entities default_config no_faults (new_session []) [])) = [0]"
    by blast
  ultimately show ?thesis using r z by simp
qed

end
